theory Spec2Isabelle
  imports Main "HOL-Library.Word"
begin

unbundle bit_operations_syntax

section \<open>QCCTV local camera: data model\<close>

text \<open>
  The development embeds \<^verbatim>\<open>QCCTV_LocalCamera.cpp\<close>. A \<^verbatim>\<open>char\<close> is an 8-bit word, a
  \<^verbatim>\<open>QByteArray\<close> a list of them, a \<^verbatim>\<open>QString\<close> a list of UTF-16 code units, a
  \<^verbatim>\<open>QTcpSocket*\<close> a handle. The bitmask \<^verbatim>\<open>m_cameraStatus\<close> is a C++ \<^verbatim>\<open>int\<close> used with
  \<^verbatim>\<open>&\<close>, \<^verbatim>\<open>|=\<close> and \<^verbatim>\<open>^=\<close>, hence a 32-bit word; \<^verbatim>\<open>m_fps\<close> and
  \<^verbatim>\<open>m_flashlightStatus\<close> are \<^verbatim>\<open>int\<close>s that are only compared, stored and narrowed to
  one byte, and are kept as integers.
\<close>

type_synonym byte = "8 word"
type_synonym QByteArray = "byte list"
type_synonym QString = "16 word list"
type_synonym QTcpSocket = nat
type_synonym qreal = "64 word"

text \<open>A \<^verbatim>\<open>QImage\<close> is either null or has a size and pixel data.\<close>

datatype QImage = NullImage | Image nat nat "byte list"

fun isNull :: "QImage \<Rightarrow> bool" where
  "isNull NullImage = True"
| "isNull (Image w h px) = False"

text \<open>
  Everything the camera object does to the outside is recorded, in program order, as an
  event: the Qt signals it emits, the calls it makes on the camera hardware, the frame
  grabber, the sockets and the TCP server, and the single-shot timers it arms.
\<close>

datatype FlashMode = FlashVideoLight | FlashOff

datatype TimerType = CoarseTimer | PreciseTimer

datatype Slot = SlotUpdate | SlotBroadcastInfo

datatype event =
    fpsChanged
  | cameraNameChanged
  | cameraStatusChanged
  | lightStatusChanged
  | imageChanged
  | focusStatusChanged
  | setFlashMode FlashMode
  | searchAndLock
  | cameraSetViewfinder
  | cameraSetCaptureMode
  | cameraStart
  | captureCapture
  | grabberSetGrayscale bool
  | grabberSetShrinkRatio qreal
  | socketWrite QTcpSocket QByteArray
  | socketClose QTcpSocket
  | socketDeleteLater QTcpSocket
  | socketSetLowDelay QTcpSocket
  | serverListen nat
  | writeDatagram QByteArray nat
  | singleShot int TimerType Slot

text \<open>
  What the attached \<^verbatim>\<open>QCamera\<close> reports when asked: whether its status is
  \<^verbatim>\<open>ActiveStatus\<close>, whether the flash is ready, whether the capture object is ready.
\<close>

record QCamera =
  statusActive :: bool
  isFlashReady :: bool
  isReadyForCapture :: bool

record LocalCamera =
  m_fps :: int
  m_name :: QString
  m_cameraStatus :: "32 word"
  m_flashlightStatus :: int
  m_image :: QImage
  m_dataStream :: QByteArray
  m_sockets :: "QTcpSocket list"
  m_camera :: "QCamera option"
  m_capture :: bool
  trace :: "event list"

text \<open>
  The header \<^verbatim>\<open>QCCTV.h\<close> is not among the sources. Its constants and the function
  \<^verbatim>\<open>QCCTV_GET_VALID_FPS\<close> are parameters of the model, together with the two library
  conversions the code relies on, \<^verbatim>\<open>QString::toUtf8\<close> (behind
  \<^verbatim>\<open>QByteArray::append (const QString&)\<close>) and \<^verbatim>\<open>QImage::save\<close> with the format
  \<^verbatim>\<open>QCCTV_IMAGE_FORMAT\<close> and quality 50, and with whether the platform's
  \<^verbatim>\<open>char\<close> is signed (it is on x86, it is not on ARM Linux).
\<close>

record env =
  QCCTV_GET_VALID_FPS :: "int \<Rightarrow> int"
  QCCTV_DEFAULT_FPS :: int
  QCCTV_CAMSTATUS_DEFAULT :: "32 word"
  QCCTV_CAMSTATUS_VIDEO_FAILURE :: "32 word"
  QCCTV_CAMSTATUS_LIGHT_FAILURE :: "32 word"
  QCCTV_FLASHLIGHT_ON :: int
  QCCTV_FLASHLIGHT_OFF :: int
  QCCTV_FORCE_FOCUS :: int
  QCCTV_EOD :: QByteArray
  QCCTV_STREAM_PORT :: nat
  QCCTV_DISCOVERY_PORT :: nat
  QCCTV_DISCVRY_PKT_TIMING :: int
  toUtf8 :: "QString \<Rightarrow> QByteArray"
  save :: "QImage \<Rightarrow> QByteArray"
  char_is_signed :: bool

text \<open>
  The conversions \<^verbatim>\<open>(int) data.at (i)\<close> and \<^verbatim>\<open>(QCCTV_LightStatus) data.at (i)\<close> of a
  \<^verbatim>\<open>char\<close>: sign extension where \<^verbatim>\<open>char\<close> is signed, zero extension where it is not.
\<close>

definition char_to_int :: "env \<Rightarrow> byte \<Rightarrow> int" where
  "char_to_int h b = (if char_is_signed h then sint b else uint b)"

definition emit :: "event list \<Rightarrow> LocalCamera \<Rightarrow> LocalCamera" where
  "emit es c = c\<lparr>trace := trace c @ es\<rparr>"

text \<open>A string literal as a \<^verbatim>\<open>QString\<close>: one code unit per ASCII character.\<close>

definition QString_of :: "string \<Rightarrow> QString" where
  "QString_of s = map of_char s"

text \<open>
  C++ integer division truncates towards zero. It is undefined for a zero divisor, which
  the caller below checks before dividing.
\<close>

definition c_div :: "int \<Rightarrow> int \<Rightarrow> int" where
  "c_div a b = sgn a * sgn b * (\<bar>a\<bar> div \<bar>b\<bar>)"

section \<open>Accessors\<close>

definition fps :: "LocalCamera \<Rightarrow> int" where
  "fps c = m_fps c"

definition lightStatus :: "LocalCamera \<Rightarrow> int" where
  "lightStatus c = m_flashlightStatus c"

definition flashlightOn :: "env \<Rightarrow> LocalCamera \<Rightarrow> bool" where
  "flashlightOn h c = (lightStatus c = QCCTV_FLASHLIGHT_ON h)"

definition flashlightOff :: "env \<Rightarrow> LocalCamera \<Rightarrow> bool" where
  "flashlightOff h c = (lightStatus c = QCCTV_FLASHLIGHT_OFF h)"

definition cameraName :: "LocalCamera \<Rightarrow> QString" where
  "cameraName c = m_name c"

definition currentImage :: "LocalCamera \<Rightarrow> QImage" where
  "currentImage c = m_image c"

definition readyForCapture :: "LocalCamera \<Rightarrow> bool" where
  "readyForCapture c =
     (case m_camera c of
        Some cam \<Rightarrow> if m_capture c then isReadyForCapture cam else False
      | None \<Rightarrow> False)"

definition flashlightAvailable :: "LocalCamera \<Rightarrow> bool" where
  "flashlightAvailable c =
     (case m_camera c of Some cam \<Rightarrow> isFlashReady cam | None \<Rightarrow> False)"

definition connectedHosts :: "LocalCamera \<Rightarrow> QTcpSocket list" where
  "connectedHosts c = m_sockets c"

definition cameraStatus :: "LocalCamera \<Rightarrow> 32 word" where
  "cameraStatus c = m_cameraStatus c"

section \<open>Mutators and slots\<close>

definition takePhoto :: "LocalCamera \<Rightarrow> LocalCamera" where
  "takePhoto c = (if readyForCapture c then emit [captureCapture] c else c)"

definition focusCamera :: "LocalCamera \<Rightarrow> LocalCamera" where
  "focusCamera c =
     (case m_camera c of
        Some cam \<Rightarrow> emit [searchAndLock, focusStatusChanged] c
      | None \<Rightarrow> c)"

definition setFPS :: "env \<Rightarrow> int \<Rightarrow> LocalCamera \<Rightarrow> LocalCamera" where
  "setFPS h n c =
     (if m_fps c \<noteq> QCCTV_GET_VALID_FPS h n
      then emit [fpsChanged] (c\<lparr>m_fps := QCCTV_GET_VALID_FPS h n\<rparr>)
      else c)"

definition setCamera :: "QCamera option \<Rightarrow> LocalCamera \<Rightarrow> LocalCamera" where
  "setCamera camera c =
     (case camera of
        Some cam \<Rightarrow>
          emit [cameraSetViewfinder, cameraSetCaptureMode, cameraStart]
            (c\<lparr>m_camera := Some cam, m_capture := True\<rparr>)
      | None \<Rightarrow> c)"

definition setName :: "QString \<Rightarrow> LocalCamera \<Rightarrow> LocalCamera" where
  "setName name c =
     (if m_name c \<noteq> name then emit [cameraNameChanged] (c\<lparr>m_name := name\<rparr>) else c)"

definition setGrayscale :: "bool \<Rightarrow> LocalCamera \<Rightarrow> LocalCamera" where
  "setGrayscale gray c = emit [grabberSetGrayscale gray] c"

definition setShrinkRatio :: "qreal \<Rightarrow> LocalCamera \<Rightarrow> LocalCamera" where
  "setShrinkRatio ratio c = emit [grabberSetShrinkRatio ratio] c"

definition addStatusFlag :: "32 word \<Rightarrow> LocalCamera \<Rightarrow> LocalCamera" where
  "addStatusFlag status c =
     (if m_cameraStatus c AND status = 0
      then emit [cameraStatusChanged] (c\<lparr>m_cameraStatus := m_cameraStatus c OR status\<rparr>)
      else c)"

definition setCameraStatus :: "32 word \<Rightarrow> LocalCamera \<Rightarrow> LocalCamera" where
  "setCameraStatus status c = emit [cameraStatusChanged] (c\<lparr>m_cameraStatus := status\<rparr>)"

definition removeStatusFlag :: "32 word \<Rightarrow> LocalCamera \<Rightarrow> LocalCamera" where
  "removeStatusFlag status c =
     (if m_cameraStatus c AND status \<noteq> 0
      then emit [cameraStatusChanged] (c\<lparr>m_cameraStatus := m_cameraStatus c XOR status\<rparr>)
      else c)"

text \<open>
  \<^verbatim>\<open>setFlashlightStatus\<close> stores the requested status first and only then looks at the
  hardware; its two early returns leave the function after the assignment.
\<close>

definition setFlashlightStatus :: "env \<Rightarrow> int \<Rightarrow> LocalCamera \<Rightarrow> LocalCamera" where
  "setFlashlightStatus h status c =
     (if m_flashlightStatus c \<noteq> status then
        (let c1 = c\<lparr>m_flashlightStatus := status\<rparr> in
         if m_camera c1 = None then c1
         else if \<not> flashlightAvailable c1 then c1
         else
           (let c2 = (if flashlightOn h c1
                      then focusCamera (emit [setFlashMode FlashVideoLight] c1)
                      else emit [setFlashMode FlashOff] c1)
            in emit [lightStatusChanged] c2))
      else c)"

definition turnOnFlashlight :: "env \<Rightarrow> LocalCamera \<Rightarrow> LocalCamera" where
  "turnOnFlashlight h c = setFlashlightStatus h (QCCTV_FLASHLIGHT_ON h) c"

definition turnOffFlashlight :: "env \<Rightarrow> LocalCamera \<Rightarrow> LocalCamera" where
  "turnOffFlashlight h c = setFlashlightStatus h (QCCTV_FLASHLIGHT_OFF h) c"

definition updateStatus :: "env \<Rightarrow> LocalCamera \<Rightarrow> LocalCamera" where
  "updateStatus h c =
     (let c1 = (case m_camera c of
                  None \<Rightarrow> addStatusFlag (QCCTV_CAMSTATUS_VIDEO_FAILURE h) c
                | Some cam \<Rightarrow>
                    if \<not> statusActive cam
                    then addStatusFlag (QCCTV_CAMSTATUS_VIDEO_FAILURE h) c
                    else removeStatusFlag (QCCTV_CAMSTATUS_VIDEO_FAILURE h) c)
      in if \<not> flashlightAvailable c1
         then addStatusFlag (QCCTV_CAMSTATUS_LIGHT_FAILURE h) c1
         else removeStatusFlag (QCCTV_CAMSTATUS_LIGHT_FAILURE h) c1)"

text \<open>
  The bytes \<^verbatim>\<open>generateDataStream\<close> appends to an empty buffer. Each
  \<^verbatim>\<open>append\<close> of an \<^verbatim>\<open>int\<close> or an enumerator selects \<^verbatim>\<open>QByteArray::append (char)\<close>,
  which keeps the low eight bits.
\<close>

definition imagePayload :: "env \<Rightarrow> QImage \<Rightarrow> QByteArray" where
  "imagePayload h img = (if \<not> isNull img then save h img else [])"

definition dataStreamOf :: "env \<Rightarrow> LocalCamera \<Rightarrow> QByteArray" where
  "dataStreamOf h c =
     [word_of_int (int (length (cameraName c)))] @ toUtf8 h (cameraName c)
     @ [word_of_int (fps c)] @ [word_of_int (lightStatus c)] @ [ucast (cameraStatus c)]
     @ imagePayload h (currentImage c)
     @ QCCTV_EOD h"

definition generateDataStream :: "env \<Rightarrow> LocalCamera \<Rightarrow> LocalCamera" where
  "generateDataStream h c =
     (if m_dataStream c = [] then c\<lparr>m_dataStream := m_dataStream c @ dataStreamOf h c\<rparr> else c)"

definition sendCameraData :: "LocalCamera \<Rightarrow> LocalCamera" where
  "sendCameraData c =
     (emit (map (\<lambda>socket. socketWrite socket (m_dataStream c)) (m_sockets c)) c)
       \<lparr>m_dataStream := []\<rparr>"

text \<open>
  One scheduler tick. The division \<^verbatim>\<open>1000 / fps()\<close> is undefined when the stored rate
  is zero; the model then has no result.
\<close>

definition update :: "env \<Rightarrow> LocalCamera \<Rightarrow> LocalCamera option" where
  "update h c =
     (let c1 = updateStatus h c;
          c2 = generateDataStream h c1;
          c3 = sendCameraData c2
      in if fps c3 = 0 then None
         else Some (emit [singleShot (c_div 1000 (fps c3)) PreciseTimer SlotUpdate] c3))"

definition broadcastInfo :: "env \<Rightarrow> LocalCamera \<Rightarrow> LocalCamera" where
  "broadcastInfo h c =
     emit [writeDatagram (toUtf8 h (QString_of ''QCCTV_DISCOVERY_SERVICE'')) (QCCTV_DISCOVERY_PORT h),
           singleShot (QCCTV_DISCVRY_PKT_TIMING h) PreciseTimer SlotBroadcastInfo] c"

text \<open>
  \<^verbatim>\<open>onDisconnected\<close> and \<^verbatim>\<open>readCommandPacket\<close> act only when the sender of the signal
  is a socket. \<^verbatim>\<open>QList::removeAt\<close> ignores the index \<^verbatim>\<open>-1\<close> that \<^verbatim>\<open>indexOf\<close>
  returns for a socket that is not in the list.
\<close>

definition onDisconnected :: "QTcpSocket option \<Rightarrow> LocalCamera \<Rightarrow> LocalCamera" where
  "onDisconnected sender c =
     (case sender of
        Some socket \<Rightarrow>
          (emit [socketClose socket, socketDeleteLater socket] c)
            \<lparr>m_sockets := remove1 socket (m_sockets c)\<rparr>
      | None \<Rightarrow> c)"

fun acceptConnection :: "QTcpSocket list \<Rightarrow> LocalCamera \<Rightarrow> LocalCamera" where
  "acceptConnection [] c = c"
| "acceptConnection (s # pending) c =
     acceptConnection pending
       (emit [socketSetLowDelay s] (c\<lparr>m_sockets := m_sockets c @ [s]\<rparr>))"

definition readCommandPacket :: "env \<Rightarrow> QByteArray option \<Rightarrow> LocalCamera \<Rightarrow> LocalCamera" where
  "readCommandPacket h sender c =
     (case sender of
        Some data \<Rightarrow>
          if length data \<noteq> 3 then c
          else
            (let c1 = setFPS h (char_to_int h (data ! 0)) c;
                 c2 = setFlashlightStatus h (char_to_int h (data ! 1)) c1
             in if char_to_int h (data ! 2) = QCCTV_FORCE_FOCUS h then focusCamera c2 else c2)
      | None \<Rightarrow> c)"

definition changeImage :: "QImage \<Rightarrow> LocalCamera \<Rightarrow> LocalCamera" where
  "changeImage img c =
     (if \<not> isNull img then emit [imageChanged] (c\<lparr>m_image := img\<rparr>) else c)"

text \<open>
  The constructor. \<^verbatim>\<open>m_fps\<close>, \<^verbatim>\<open>m_flashlightStatus\<close> and \<^verbatim>\<open>m_cameraStatus\<close> are not
  initialised before the setters read them, so the values found there are arguments;
  so are the pixels of the rendered 320 by 240 placeholder.
\<close>

definition QCCTV_LocalCamera ::
  "env \<Rightarrow> int \<Rightarrow> int \<Rightarrow> 32 word \<Rightarrow> byte list \<Rightarrow> LocalCamera" where
  "QCCTV_LocalCamera h fps0 light0 status0 pixels =
     (let c0 = \<lparr>m_fps = fps0, m_name = [], m_cameraStatus = status0,
                m_flashlightStatus = light0, m_image = NullImage, m_dataStream = [],
                m_sockets = [], m_camera = None, m_capture = False,
                trace = [serverListen (QCCTV_STREAM_PORT h)]\<rparr>;
          c1 = setFPS h (QCCTV_DEFAULT_FPS h) c0;
          c2 = setName (QString_of ''Unknown Camera'') c1;
          c3 = setCameraStatus (QCCTV_CAMSTATUS_DEFAULT h) c2;
          c4 = setFlashlightStatus h (QCCTV_FLASHLIGHT_OFF h) c3;
          c5 = c4\<lparr>m_image := Image 320 240 pixels\<rparr>
      in emit [singleShot 1000 CoarseTimer SlotUpdate,
               singleShot 1000 CoarseTimer SlotBroadcastInfo] c5)"

section \<open>Runs of the camera object\<close>

text \<open>
  The operations that can reach the object between construction and destruction: its
  slots and methods, and a change of what the attached hardware reports
  (\<open>HardwareReports\<close>, which has no effect while no camera is attached).
\<close>

datatype operation =
    TakePhoto
  | FocusCamera
  | TurnOnFlashlight
  | TurnOffFlashlight
  | SetFPS int
  | SetCamera "QCamera option"
  | SetName QString
  | SetGrayscale bool
  | SetShrinkRatio qreal
  | Update
  | UpdateStatus
  | SendCameraData
  | BroadcastInfo
  | OnDisconnected "QTcpSocket option"
  | AcceptConnection "QTcpSocket list"
  | ReadCommandPacket "QByteArray option"
  | GenerateDataStream
  | ChangeImage QImage
  | AddStatusFlag "32 word"
  | SetCameraStatus "32 word"
  | RemoveStatusFlag "32 word"
  | SetFlashlightStatus int
  | HardwareReports QCamera

fun step :: "env \<Rightarrow> operation \<Rightarrow> LocalCamera \<Rightarrow> LocalCamera option" where
  "step h TakePhoto c = Some (takePhoto c)"
| "step h FocusCamera c = Some (focusCamera c)"
| "step h TurnOnFlashlight c = Some (turnOnFlashlight h c)"
| "step h TurnOffFlashlight c = Some (turnOffFlashlight h c)"
| "step h (SetFPS n) c = Some (setFPS h n c)"
| "step h (SetCamera camera) c = Some (setCamera camera c)"
| "step h (SetName name) c = Some (setName name c)"
| "step h (SetGrayscale gray) c = Some (setGrayscale gray c)"
| "step h (SetShrinkRatio ratio) c = Some (setShrinkRatio ratio c)"
| "step h Update c = update h c"
| "step h UpdateStatus c = Some (updateStatus h c)"
| "step h SendCameraData c = Some (sendCameraData c)"
| "step h BroadcastInfo c = Some (broadcastInfo h c)"
| "step h (OnDisconnected sender) c = Some (onDisconnected sender c)"
| "step h (AcceptConnection pending) c = Some (acceptConnection pending c)"
| "step h (ReadCommandPacket sender) c = Some (readCommandPacket h sender c)"
| "step h GenerateDataStream c = Some (generateDataStream h c)"
| "step h (ChangeImage img) c = Some (changeImage img c)"
| "step h (AddStatusFlag status) c = Some (addStatusFlag status c)"
| "step h (SetCameraStatus status) c = Some (setCameraStatus status c)"
| "step h (RemoveStatusFlag status) c = Some (removeStatusFlag status c)"
| "step h (SetFlashlightStatus status) c = Some (setFlashlightStatus h status c)"
| "step h (HardwareReports cam) c =
     Some (case m_camera c of None \<Rightarrow> c | Some old \<Rightarrow> c\<lparr>m_camera := Some cam\<rparr>)"

fun run :: "env \<Rightarrow> operation list \<Rightarrow> LocalCamera \<Rightarrow> LocalCamera option" where
  "run h [] c = Some c"
| "run h (x # xs) c = (case step h x c of None \<Rightarrow> None | Some c' \<Rightarrow> run h xs c')"

section \<open>The frame-rate range\<close>

text \<open>
  Modelled from the spec: \<^verbatim>\<open>QCCTV_GET_VALID_FPS\<close> is declared in \<^verbatim>\<open>QCCTV.h\<close> and
  defined outside the sources. The specification describes it as clamping to a fixed valid
  range: a value outside the range becomes the nearest boundary, a value inside is kept.
  The bounds of the range are arguments.
\<close>

definition QCCTV_GET_VALID_FPS_spec :: "int \<Rightarrow> int \<Rightarrow> int \<Rightarrow> int" where
  "QCCTV_GET_VALID_FPS_spec lo hi n = (if n < lo then lo else if hi < n then hi else n)"

section \<open>An instance for evaluation\<close>

text \<open>
  One choice of the parameters, on which the model is evaluated. The rate range 1 to 60,
  the light status codes and the token are those the specification's scenarios use;
  \<^verbatim>\<open>char\<close> is signed; images carry their own encoding; and names are encoded in
  UTF-8 code unit by code unit, which is \<^verbatim>\<open>QString::toUtf8\<close> on every name without
  surrogates (the names used below have none). No theorem below depends on these choices
  except the evaluations that name them.
\<close>

definition example_toUtf8_unit :: "16 word \<Rightarrow> byte list" where
  "example_toUtf8_unit u =
     (if u < 0x80 then [ucast u]
      else if u < 0x800 then [0xC0 OR ucast (drop_bit 6 u), 0x80 OR ucast (u AND 0x3F)]
      else [0xE0 OR ucast (drop_bit 12 u), 0x80 OR ucast (drop_bit 6 u AND 0x3F),
            0x80 OR ucast (u AND 0x3F)])"

definition example_toUtf8 :: "QString \<Rightarrow> QByteArray" where
  "example_toUtf8 s = concat (map example_toUtf8_unit s)"

definition example_env :: env where
  "example_env =
     \<lparr>QCCTV_GET_VALID_FPS = QCCTV_GET_VALID_FPS_spec 1 60,
      QCCTV_DEFAULT_FPS = 24,
      QCCTV_CAMSTATUS_DEFAULT = 0,
      QCCTV_CAMSTATUS_VIDEO_FAILURE = 8,
      QCCTV_CAMSTATUS_LIGHT_FAILURE = 16,
      QCCTV_FLASHLIGHT_ON = 1,
      QCCTV_FLASHLIGHT_OFF = 0,
      QCCTV_FORCE_FOCUS = 1,
      QCCTV_EOD = [0x45, 0x4F, 0x44],
      QCCTV_STREAM_PORT = 1100,
      QCCTV_DISCOVERY_PORT = 1200,
      QCCTV_DISCVRY_PKT_TIMING = 1000,
      toUtf8 = example_toUtf8,
      save = (\<lambda>img. case img of NullImage \<Rightarrow> [] | Image w h px \<Rightarrow> px),
      char_is_signed = True\<rparr>"

text \<open>A freshly constructed camera object: no hardware, no viewer.\<close>

definition example_camera :: LocalCamera where
  "example_camera = QCCTV_LocalCamera example_env 0 0 0 [7, 7]"

text \<open>The same object with a working camera attached and two viewers connected.\<close>

definition example_hardware :: QCamera where
  "example_hardware = \<lparr>statusActive = True, isFlashReady = True, isReadyForCapture = True\<rparr>"

text \<open>A camera whose flash is not ready yet.\<close>

definition example_flash_not_ready :: QCamera where
  "example_flash_not_ready =
     \<lparr>statusActive = True, isFlashReady = False, isReadyForCapture = True\<rparr>"

definition example_station :: LocalCamera where
  "example_station =
     acceptConnection [1, 2] (setCamera (Some example_hardware) example_camera)"

text \<open>A short session on the fresh object: a null frame, a tick, a real frame, a new rate.\<close>

definition example_session :: "operation list" where
  "example_session = [ChangeImage NullImage, Update, ChangeImage (Image 2 1 [9, 9]), SetFPS 30]"

text \<open>The object that session leaves behind.\<close>

definition example_after_session :: LocalCamera where
  "example_after_session =
     example_camera
       \<lparr>m_fps := 30, m_cameraStatus := 24, m_image := Image 2 1 [9, 9],
        trace := trace example_camera @
          [cameraStatusChanged, cameraStatusChanged, singleShot 41 PreciseTimer SlotUpdate,
           imageChanged, fpsChanged]\<rparr>"

section \<open>Evaluating the instance\<close>

lemma example_env_sel:
  "QCCTV_GET_VALID_FPS example_env = QCCTV_GET_VALID_FPS_spec 1 60"
  "QCCTV_DEFAULT_FPS example_env = 24"
  "QCCTV_CAMSTATUS_DEFAULT example_env = 0"
  "QCCTV_CAMSTATUS_VIDEO_FAILURE example_env = 8"
  "QCCTV_CAMSTATUS_LIGHT_FAILURE example_env = 16"
  "QCCTV_FLASHLIGHT_ON example_env = 1"
  "QCCTV_FLASHLIGHT_OFF example_env = 0"
  "QCCTV_FORCE_FOCUS example_env = 1"
  "QCCTV_EOD example_env = [0x45, 0x4F, 0x44]"
  "toUtf8 example_env = example_toUtf8"
  "save example_env (Image w h px) = px"
  "char_is_signed example_env"
  by (simp_all add: example_env_def)

lemma example_toUtf8_simps:
  "example_toUtf8 [] = []"
  "example_toUtf8 (u # us) = example_toUtf8_unit u @ example_toUtf8 us"
  by (simp_all add: example_toUtf8_def)

lemma example_name_utf8:
  "example_toUtf8 [85, 110, 107, 110, 111, 119, 110, 32, 67, 97, 109, 101, 114, 97] =
     [85, 110, 107, 110, 111, 119, 110, 32, 67, 97, 109, 101, 114, 97]"
  by (simp add: example_toUtf8_simps example_toUtf8_unit_def)

lemma example_camera_eq:
  "example_camera =
     \<lparr>m_fps = 24, m_name = [85, 110, 107, 110, 111, 119, 110, 32, 67, 97, 109, 101, 114, 97],
      m_cameraStatus = 0, m_flashlightStatus = 0, m_image = Image 320 240 [7, 7],
      m_dataStream = [], m_sockets = [], m_camera = None, m_capture = False,
      trace = [serverListen 1100, fpsChanged, cameraNameChanged, cameraStatusChanged,
               singleShot 1000 CoarseTimer SlotUpdate,
               singleShot 1000 CoarseTimer SlotBroadcastInfo]\<rparr>"
  by (simp add: example_camera_def QCCTV_LocalCamera_def example_env_def setFPS_def setName_def
      setCameraStatus_def setFlashlightStatus_def emit_def QCCTV_GET_VALID_FPS_spec_def
      QString_of_def)

lemma example_station_eq:
  "example_station =
     \<lparr>m_fps = 24, m_name = [85, 110, 107, 110, 111, 119, 110, 32, 67, 97, 109, 101, 114, 97],
      m_cameraStatus = 0, m_flashlightStatus = 0, m_image = Image 320 240 [7, 7],
      m_dataStream = [], m_sockets = [1, 2],
      m_camera = Some \<lparr>statusActive = True, isFlashReady = True, isReadyForCapture = True\<rparr>,
      m_capture = True,
      trace = [serverListen 1100, fpsChanged, cameraNameChanged, cameraStatusChanged,
               singleShot 1000 CoarseTimer SlotUpdate,
               singleShot 1000 CoarseTimer SlotBroadcastInfo,
               cameraSetViewfinder, cameraSetCaptureMode, cameraStart,
               socketSetLowDelay 1, socketSetLowDelay 2]\<rparr>"
  by (simp add: example_station_def example_camera_eq example_hardware_def setCamera_def emit_def)

lemma example_session_run:
  "run example_env example_session (QCCTV_LocalCamera example_env 0 0 0 [7, 7]) =
     Some example_after_session"
  unfolding example_camera_def [symmetric]
  by (simp add: example_session_def example_after_session_def example_camera_eq example_env_sel
      update_def updateStatus_def addStatusFlag_def flashlightAvailable_def
      generateDataStream_def dataStreamOf_def imagePayload_def cameraName_def fps_def
      lightStatus_def cameraStatus_def currentImage_def sendCameraData_def emit_def c_div_def
      setFPS_def QCCTV_GET_VALID_FPS_spec_def changeImage_def)

section \<open>What each operation leaves alone\<close>

lemma emit_sel [simp]:
  "m_fps (emit es c) = m_fps c" "m_name (emit es c) = m_name c"
  "m_cameraStatus (emit es c) = m_cameraStatus c"
  "m_flashlightStatus (emit es c) = m_flashlightStatus c"
  "m_image (emit es c) = m_image c" "m_dataStream (emit es c) = m_dataStream c"
  "m_sockets (emit es c) = m_sockets c" "m_camera (emit es c) = m_camera c"
  "m_capture (emit es c) = m_capture c" "trace (emit es c) = trace c @ es"
  by (simp_all add: emit_def)

lemma addStatusFlag_sel [simp]:
  "m_fps (addStatusFlag f c) = m_fps c" "m_name (addStatusFlag f c) = m_name c"
  "m_flashlightStatus (addStatusFlag f c) = m_flashlightStatus c"
  "m_image (addStatusFlag f c) = m_image c" "m_dataStream (addStatusFlag f c) = m_dataStream c"
  "m_sockets (addStatusFlag f c) = m_sockets c" "m_camera (addStatusFlag f c) = m_camera c"
  "m_capture (addStatusFlag f c) = m_capture c"
  by (simp_all add: addStatusFlag_def)

lemma removeStatusFlag_sel [simp]:
  "m_fps (removeStatusFlag f c) = m_fps c" "m_name (removeStatusFlag f c) = m_name c"
  "m_flashlightStatus (removeStatusFlag f c) = m_flashlightStatus c"
  "m_image (removeStatusFlag f c) = m_image c"
  "m_dataStream (removeStatusFlag f c) = m_dataStream c"
  "m_sockets (removeStatusFlag f c) = m_sockets c" "m_camera (removeStatusFlag f c) = m_camera c"
  "m_capture (removeStatusFlag f c) = m_capture c"
  by (simp_all add: removeStatusFlag_def)

lemma addStatusFlag_trace:
  "trace (addStatusFlag f c) =
     trace c @ (if m_cameraStatus c AND f = 0 then [cameraStatusChanged] else [])"
  by (simp add: addStatusFlag_def)

lemma removeStatusFlag_trace:
  "trace (removeStatusFlag f c) =
     trace c @ (if m_cameraStatus c AND f \<noteq> 0 then [cameraStatusChanged] else [])"
  by (simp add: removeStatusFlag_def)

lemma flashlightAvailable_cong:
  "m_camera c' = m_camera c \<Longrightarrow> flashlightAvailable c' = flashlightAvailable c"
  by (simp add: flashlightAvailable_def)

lemma updateStatus_sel [simp]:
  "m_fps (updateStatus h c) = m_fps c" "m_name (updateStatus h c) = m_name c"
  "m_flashlightStatus (updateStatus h c) = m_flashlightStatus c"
  "m_image (updateStatus h c) = m_image c" "m_dataStream (updateStatus h c) = m_dataStream c"
  "m_sockets (updateStatus h c) = m_sockets c" "m_camera (updateStatus h c) = m_camera c"
  "m_capture (updateStatus h c) = m_capture c"
  by (simp_all add: updateStatus_def Let_def split: option.split)

text \<open>The status refresh emits nothing but status notifications.\<close>

lemma updateStatus_trace:
  "\<exists>es. set es \<subseteq> {cameraStatusChanged} \<and> trace (updateStatus h c) = trace c @ es"
proof -
  have add: "\<exists>es. set es \<subseteq> {cameraStatusChanged} \<and> trace (addStatusFlag f d) = trace d @ es"
    for f d
    by (cases "m_cameraStatus d AND f = 0") (simp_all add: addStatusFlag_trace)
  have rem: "\<exists>es. set es \<subseteq> {cameraStatusChanged} \<and> trace (removeStatusFlag f d) = trace d @ es"
    for f d
    by (cases "m_cameraStatus d AND f = 0") (simp_all add: removeStatusFlag_trace)
  define c1 where "c1 =
    (case m_camera c of
       None \<Rightarrow> addStatusFlag (QCCTV_CAMSTATUS_VIDEO_FAILURE h) c
     | Some cam \<Rightarrow>
         if \<not> statusActive cam
         then addStatusFlag (QCCTV_CAMSTATUS_VIDEO_FAILURE h) c
         else removeStatusFlag (QCCTV_CAMSTATUS_VIDEO_FAILURE h) c)"
  have "\<exists>es. set es \<subseteq> {cameraStatusChanged} \<and> trace c1 = trace c @ es"
    unfolding c1_def using add rem by (simp split: option.split)
  then obtain es where es: "set es \<subseteq> {cameraStatusChanged}" "trace c1 = trace c @ es"
    by blast
  have "\<exists>fs. set fs \<subseteq> {cameraStatusChanged} \<and> trace (updateStatus h c) = trace c1 @ fs"
    unfolding updateStatus_def c1_def [symmetric] Let_def using add rem by simp
  then obtain fs where fs: "set fs \<subseteq> {cameraStatusChanged}"
      "trace (updateStatus h c) = trace c1 @ fs"
    by blast
  from es fs have "set (es @ fs) \<subseteq> {cameraStatusChanged}"
      "trace (updateStatus h c) = trace c @ (es @ fs)"
    by simp_all
  then show ?thesis by blast
qed

lemma c_div_pos: "0 < b \<Longrightarrow> c_div 1000 b = 1000 div b"
  by (simp add: c_div_def)

lemma setFPS_trace:
  "trace (setFPS h n c) =
     trace c @ (if m_fps c \<noteq> QCCTV_GET_VALID_FPS h n then [fpsChanged] else [])"
  by (simp add: setFPS_def)

lemma setFPS_fps: "m_fps (setFPS h n c) = QCCTV_GET_VALID_FPS h n"
  by (simp add: setFPS_def)

text \<open>A tick with a non-zero stored rate, written out.\<close>

lemma update_eq:
  assumes "m_fps c \<noteq> 0"
  shows "update h c =
     Some ((updateStatus h c)
       \<lparr>m_dataStream := [],
        trace := trace (updateStatus h c)
          @ map (\<lambda>socket. socketWrite socket
                  (if m_dataStream c = [] then dataStreamOf h (updateStatus h c)
                   else m_dataStream c)) (m_sockets c)
          @ [singleShot (c_div 1000 (m_fps c)) PreciseTimer SlotUpdate]\<rparr>)"
  using assms
  by (simp add: update_def Let_def generateDataStream_def sendCameraData_def fps_def emit_def)

lemma focusCamera_keeps [simp]:
  "m_image (focusCamera c) = m_image c" "m_fps (focusCamera c) = m_fps c"
  by (simp_all add: focusCamera_def split: option.split)

lemma takePhoto_keeps [simp]:
  "m_image (takePhoto c) = m_image c" "m_fps (takePhoto c) = m_fps c"
  by (simp_all add: takePhoto_def)

lemma setFlashlightStatus_keeps [simp]:
  "m_image (setFlashlightStatus h s c) = m_image c"
  "m_fps (setFlashlightStatus h s c) = m_fps c"
  by (simp_all add: setFlashlightStatus_def Let_def)

lemma setFPS_image [simp]: "m_image (setFPS h n c) = m_image c"
  by (simp add: setFPS_def)

lemma setCamera_keeps [simp]:
  "m_image (setCamera cam c) = m_image c" "m_fps (setCamera cam c) = m_fps c"
  by (simp_all add: setCamera_def split: option.split)

lemma setName_keeps [simp]:
  "m_image (setName name c) = m_image c" "m_fps (setName name c) = m_fps c"
  by (simp_all add: setName_def)

lemma setCameraStatus_keeps [simp]:
  "m_image (setCameraStatus s c) = m_image c" "m_fps (setCameraStatus s c) = m_fps c"
  by (simp_all add: setCameraStatus_def)

lemma generateDataStream_keeps [simp]:
  "m_image (generateDataStream h c) = m_image c" "m_fps (generateDataStream h c) = m_fps c"
  by (simp_all add: generateDataStream_def)

lemma sendCameraData_keeps [simp]:
  "m_image (sendCameraData c) = m_image c" "m_fps (sendCameraData c) = m_fps c"
  by (simp_all add: sendCameraData_def)

lemma onDisconnected_keeps [simp]:
  "m_image (onDisconnected s c) = m_image c" "m_fps (onDisconnected s c) = m_fps c"
  by (simp_all add: onDisconnected_def split: option.split)

lemma acceptConnection_keeps [simp]:
  "m_image (acceptConnection pending c) = m_image c"
  "m_fps (acceptConnection pending c) = m_fps c"
  by (induction pending arbitrary: c) simp_all

lemma update_keeps:
  "update h c = Some c' \<Longrightarrow> m_image c' = m_image c \<and> m_fps c' = m_fps c"
  by (auto simp add: update_def Let_def split: if_splits)

lemma changeImage_fps [simp]: "m_fps (changeImage img c) = m_fps c"
  by (simp add: changeImage_def)

lemma changeImage_not_null:
  "\<not> isNull (m_image c) \<Longrightarrow> \<not> isNull (m_image (changeImage img c))"
  by (simp add: changeImage_def)

lemma readCommandPacket_image [simp]: "m_image (readCommandPacket h s c) = m_image c"
  by (simp add: readCommandPacket_def Let_def split: option.split)

section \<open>Invariants of every run\<close>

lemma step_image:
  "step h x c = Some c' \<Longrightarrow> \<not> isNull (m_image c) \<Longrightarrow> \<not> isNull (m_image c')"
  by (cases x)
    (auto simp add: turnOnFlashlight_def turnOffFlashlight_def setGrayscale_def
      setShrinkRatio_def broadcastInfo_def changeImage_not_null
      dest: update_keeps split: option.splits)

lemma run_image:
  "run h xs c = Some c' \<Longrightarrow> \<not> isNull (m_image c) \<Longrightarrow> \<not> isNull (m_image c')"
proof (induction xs arbitrary: c)
  case Nil
  then show ?case by simp
next
  case (Cons x xs)
  from Cons.prems(1) obtain d where d: "step h x c = Some d" and r: "run h xs d = Some c'"
    by (auto split: option.splits)
  from d Cons.prems(2) have "\<not> isNull (m_image d)" by (rule step_image)
  with r show ?case by (rule Cons.IH)
qed

lemma constructor_image: "m_image (QCCTV_LocalCamera h f0 l0 s0 px) = Image 320 240 px"
  by (simp add: QCCTV_LocalCamera_def Let_def)

lemma constructor_fps:
  "m_fps (QCCTV_LocalCamera h f0 l0 s0 px) = QCCTV_GET_VALID_FPS h (QCCTV_DEFAULT_FPS h)"
  by (simp add: QCCTV_LocalCamera_def Let_def setFPS_fps)

text \<open>
  Only \<^verbatim>\<open>setFPS\<close> writes the stored rate, so after construction it is always a value
  of \<^verbatim>\<open>QCCTV_GET_VALID_FPS\<close>.
\<close>

lemma readCommandPacket_fps:
  "m_fps (readCommandPacket h s c) = m_fps c \<or>
   (\<exists>n. m_fps (readCommandPacket h s c) = QCCTV_GET_VALID_FPS h n)"
  by (auto simp add: readCommandPacket_def Let_def setFPS_fps split: option.split)

lemma step_fps:
  assumes "step h x c = Some c'"
  shows "m_fps c' = m_fps c \<or> (\<exists>n. m_fps c' = QCCTV_GET_VALID_FPS h n)"
proof (cases x)
  case (ReadCommandPacket s)
  with assms readCommandPacket_fps [of h s c] show ?thesis by auto
next
  case (SetFPS n)
  with assms show ?thesis by (auto simp add: setFPS_fps)
next
  case Update
  with assms show ?thesis by (auto dest: update_keeps)
qed (use assms in \<open>auto simp add: turnOnFlashlight_def turnOffFlashlight_def setGrayscale_def
      setShrinkRatio_def broadcastInfo_def split: option.splits\<close>)

lemma run_fps:
  assumes "run h xs c = Some c'" and "\<exists>n. m_fps c = QCCTV_GET_VALID_FPS h n"
  shows "\<exists>n. m_fps c' = QCCTV_GET_VALID_FPS h n"
  using assms
proof (induction xs arbitrary: c)
  case Nil
  then show ?case by simp
next
  case (Cons x xs)
  from Cons.prems(1) obtain d where d: "step h x c = Some d" and r: "run h xs d = Some c'"
    by (auto split: option.splits)
  from step_fps [OF d] Cons.prems(2) have "\<exists>n. m_fps d = QCCTV_GET_VALID_FPS h n" by auto
  with r show ?case by (rule Cons.IH)
qed

text \<open>
  When \<^verbatim>\<open>QCCTV_GET_VALID_FPS\<close> never yields zero, no tick of a constructed camera
  divides by zero: every run has a result.
\<close>

lemma step_total: "m_fps c \<noteq> 0 \<Longrightarrow> \<exists>c'. step h x c = Some c'"
  by (cases x) (simp_all add: update_eq)

lemma run_total:
  assumes "\<And>n. QCCTV_GET_VALID_FPS h n \<noteq> 0" and "\<exists>n. m_fps c = QCCTV_GET_VALID_FPS h n"
  shows "\<exists>c'. run h xs c = Some c'"
  using assms(2)
proof (induction xs arbitrary: c)
  case Nil
  then show ?case by simp
next
  case (Cons x xs)
  from Cons.prems assms(1) have "m_fps c \<noteq> 0" by auto
  then obtain d where d: "step h x c = Some d" using step_total by blast
  from step_fps [OF d] Cons.prems have "\<exists>n. m_fps d = QCCTV_GET_VALID_FPS h n" by auto
  then obtain c' where "run h xs d = Some c'" using Cons.IH by blast
  with d show ?case by simp
qed

lemma constructed_run_total:
  assumes "\<And>n. QCCTV_GET_VALID_FPS h n \<noteq> 0"
  shows "\<exists>c'. run h xs (QCCTV_LocalCamera h f0 l0 s0 px) = Some c'"
  using assms by (rule run_total) (auto simp add: constructor_fps)

lemma byte_of_small_nat: "n < 256 \<Longrightarrow> unat (word_of_nat n :: byte) = n"
  by (simp add: unat_of_nat)

lemma byte_of_small_int: "0 \<le> k \<Longrightarrow> k < 256 \<Longrightarrow> uint (word_of_int k :: byte) = k"
  by (simp add: uint_word_of_int take_bit_int_eq_self)

lemma small_byte_sint: "b < 128 \<Longrightarrow> sint b = uint b" for b :: byte
proof -
  assume "b < 128"
  then have small: "uint b < 128"
    by (simp add: word_less_def)
  have low: "- 128 \<le> uint b"
    using uint_ge_0 [of b] by linarith
  have "signed_take_bit 7 (uint b) = uint b"
    using low small signed_take_bit_int_eq_self [of 7 "uint b"] by simp
  then show ?thesis
    by (simp add: sint_uint)
qed

lemma word_or_and_absorb: "(s OR f) AND f = f" for s f :: "32 word"
  by (simp add: bit_eq_iff bit_and_iff bit_or_iff)

section \<open>Frame encoding and backpressure\<close>

text \<open>
  C1 (backpressure). While the outbound buffer \<^verbatim>\<open>m_dataStream\<close> is not empty,
  \<^verbatim>\<open>generateDataStream\<close> changes nothing: the buffer, every other field and the events
  stay as they are. Hence encoding twice in a row, with no \<^verbatim>\<open>sendCameraData\<close> in
  between, gives the same object as encoding once.
\<close>

theorem C1_backpressure:
  "(m_dataStream c \<noteq> [] \<longrightarrow> generateDataStream h c = c) \<and>
   generateDataStream h (generateDataStream h c) = generateDataStream h c"
proof
  show "m_dataStream c \<noteq> [] \<longrightarrow> generateDataStream h c = c"
    by (simp add: generateDataStream_def)
next
  have "dataStreamOf h c \<noteq> []"
    by (simp add: dataStreamOf_def)
  then have "m_dataStream (generateDataStream h c) \<noteq> []"
    by (simp add: generateDataStream_def)
  then show "generateDataStream h (generateDataStream h c) = generateDataStream h c"
    by (simp add: generateDataStream_def [of h "generateDataStream h c"])
qed

theorem C1_backpressure_witness:
  "m_dataStream (generateDataStream example_env example_camera) \<noteq> [] \<and>
   generateDataStream example_env (generateDataStream example_env example_camera) =
     generateDataStream example_env example_camera"
  using C1_backpressure [of "generateDataStream example_env example_camera" example_env]
  by (simp add: generateDataStream_def dataStreamOf_def example_camera_eq)

text \<open>
  C2 (frame layout), as the code has it. Take a camera whose name has fewer than 256 code
  units and whose UTF-8 encoding has one byte per code unit, as every ASCII name has. On an
  empty buffer \<^verbatim>\<open>generateDataStream\<close> changes the buffer only, and the packet it
  leaves there is, in this order: one byte holding the name length, which is both the
  number of code units of the name and the number of name bytes that follow; the bytes of
  the name; one byte with the rate; one byte with the light status; one byte with the
  status flags; the bytes of the saved image (none for a null image); and the end marker
  \<^verbatim>\<open>QCCTV_EOD\<close>. The rate and the light status are read back unchanged from their
  positions whenever they are below 256, and the flags byte is the low byte of the
  bitmask.
\<close>

theorem C2_frame_layout:
  assumes "m_dataStream c = []"
    and "length (m_name c) < 256"
    and "length (toUtf8 h (m_name c)) = length (m_name c)"
  shows "generateDataStream h c =
     c\<lparr>m_dataStream :=
         [word_of_int (int (length (m_name c)))] @ toUtf8 h (m_name c)
         @ [word_of_int (m_fps c)] @ [word_of_int (m_flashlightStatus c)]
         @ [ucast (m_cameraStatus c)]
         @ (if isNull (m_image c) then [] else save h (m_image c))
         @ QCCTV_EOD h\<rparr> \<and>
   unat (m_dataStream (generateDataStream h c) ! 0) = length (m_name c) \<and>
   unat (m_dataStream (generateDataStream h c) ! 0) = length (toUtf8 h (m_name c)) \<and>
   take (unat (m_dataStream (generateDataStream h c) ! 0))
     (drop 1 (m_dataStream (generateDataStream h c))) = toUtf8 h (m_name c) \<and>
   (0 \<le> m_fps c \<and> m_fps c < 256 \<longrightarrow>
      uint (m_dataStream (generateDataStream h c)
              ! (1 + unat (m_dataStream (generateDataStream h c) ! 0))) = m_fps c) \<and>
   (0 \<le> m_flashlightStatus c \<and> m_flashlightStatus c < 256 \<longrightarrow>
      uint (m_dataStream (generateDataStream h c)
              ! (2 + unat (m_dataStream (generateDataStream h c) ! 0))) =
        m_flashlightStatus c) \<and>
   m_dataStream (generateDataStream h c) ! (3 + unat (m_dataStream (generateDataStream h c) ! 0)) =
     ucast (m_cameraStatus c)"
proof -
  let ?name = "toUtf8 h (m_name c)"
  let ?rest = "[word_of_int (m_fps c), word_of_int (m_flashlightStatus c),
                ucast (m_cameraStatus c)]
               @ (if isNull (m_image c) then [] else save h (m_image c)) @ QCCTV_EOD h"
  have packet: "m_dataStream (generateDataStream h c) =
      word_of_nat (length (m_name c)) # ?name @ ?rest"
    using assms(1)
    by (simp add: generateDataStream_def dataStreamOf_def imagePayload_def cameraName_def
        fps_def lightStatus_def cameraStatus_def currentImage_def)
  have first: "unat (m_dataStream (generateDataStream h c) ! 0) = length (m_name c)"
    using assms(2) by (simp add: packet byte_of_small_nat)
  have whole: "generateDataStream h c =
     c\<lparr>m_dataStream :=
         [word_of_int (int (length (m_name c)))] @ toUtf8 h (m_name c)
         @ [word_of_int (m_fps c)] @ [word_of_int (m_flashlightStatus c)]
         @ [ucast (m_cameraStatus c)]
         @ (if isNull (m_image c) then [] else save h (m_image c))
         @ QCCTV_EOD h\<rparr>"
    using assms(1)
    by (simp add: generateDataStream_def dataStreamOf_def imagePayload_def cameraName_def
        fps_def lightStatus_def cameraStatus_def currentImage_def)
  have name: "take (unat (m_dataStream (generateDataStream h c) ! 0))
     (drop 1 (m_dataStream (generateDataStream h c))) = ?name"
    unfolding first by (simp add: packet assms(3))
  have fields: "m_dataStream (generateDataStream h c) ! (1 + length ?name) = word_of_int (m_fps c)"
    "m_dataStream (generateDataStream h c) ! (2 + length ?name) =
       word_of_int (m_flashlightStatus c)"
    "m_dataStream (generateDataStream h c) ! (3 + length ?name) = ucast (m_cameraStatus c)"
    by (simp_all add: packet nth_append)
  show ?thesis
    using whole first name fields
    by (simp add: assms(3) byte_of_small_int)
qed

theorem C2_frame_layout_witness:
  "m_dataStream example_camera = [] \<and>
   length (m_name example_camera) < 256 \<and>
   length (toUtf8 example_env (m_name example_camera)) = length (m_name example_camera) \<and>
   m_dataStream (generateDataStream example_env example_camera) =
     [14] @ [85, 110, 107, 110, 111, 119, 110, 32, 67, 97, 109, 101, 114, 97]
     @ [24] @ [0] @ [0] @ [7, 7] @ [0x45, 0x4F, 0x44] \<and>
   0 \<le> m_fps example_camera \<and> m_fps example_camera < 256 \<and>
   0 \<le> m_flashlightStatus example_camera \<and> m_flashlightStatus example_camera < 256"
  using C2_frame_layout [of example_camera example_env]
  by (simp add: example_camera_eq example_env_sel example_name_utf8)

text \<open>
  Without those two conditions the first byte is not the name length. For a name of 300
  code units it is 44. For the one-letter name U+00E9 it is 1, and two name bytes follow
  it, so that the byte at the position where the first byte says the rate stands is the
  second byte of the name.
\<close>

theorem C2_counterexample:
  "length (m_name (setName (replicate 300 0x41) example_camera)) = 300 \<and>
   m_dataStream (generateDataStream example_env (setName (replicate 300 0x41) example_camera)) ! 0
     = 44 \<and>
   length (m_name (setName [0xE9] example_camera)) = 1 \<and>
   toUtf8 example_env [0xE9] = [0xC3, 0xA9] \<and>
   m_dataStream (generateDataStream example_env (setName [0xE9] example_camera)) =
     [1, 0xC3, 0xA9, 24, 0, 0, 7, 7, 0x45, 0x4F, 0x44]"
  by (simp add: example_camera_eq example_env_sel setName_def generateDataStream_def
      dataStreamOf_def imagePayload_def cameraName_def fps_def lightStatus_def cameraStatus_def
      currentImage_def example_toUtf8_simps example_toUtf8_unit_def)

section \<open>Command packets\<close>

text \<open>
  C3 (command packets), as the code has it. A read of any length other than three bytes
  leaves the camera object exactly as it was. A read of three bytes \<open>a\<close>, \<open>b\<close>, \<open>f\<close>,
  each below 128 or on a platform whose \<^verbatim>\<open>char\<close> is unsigned, is taken verbatim and
  applied in this order: \<^verbatim>\<open>setFPS\<close> with the value of \<open>a\<close>, then
  \<^verbatim>\<open>setFlashlightStatus\<close> with the value of \<open>b\<close>, then \<^verbatim>\<open>focusCamera\<close> when the
  value of \<open>f\<close> equals \<^verbatim>\<open>QCCTV_FORCE_FOCUS\<close>.
\<close>

theorem C3_command_packet:
  "(length d \<noteq> 3 \<longrightarrow> readCommandPacket h (Some d) c = c) \<and>
   (\<not> char_is_signed h \<or> (a < 128 \<and> b < 128 \<and> f < 128) \<longrightarrow>
      readCommandPacket h (Some [a, b, f]) c =
        (if uint f = QCCTV_FORCE_FOCUS h then focusCamera else id)
          (setFlashlightStatus h (uint b) (setFPS h (uint a) c)))"
proof (intro conjI impI)
  assume "length d \<noteq> 3"
  then show "readCommandPacket h (Some d) c = c"
    by (simp add: readCommandPacket_def)
next
  assume "\<not> char_is_signed h \<or> (a < 128 \<and> b < 128 \<and> f < 128)"
  then have "char_to_int h a = uint a \<and> char_to_int h b = uint b \<and> char_to_int h f = uint f"
    by (auto simp add: char_to_int_def small_byte_sint)
  then show "readCommandPacket h (Some [a, b, f]) c =
        (if uint f = QCCTV_FORCE_FOCUS h then focusCamera else id)
          (setFlashlightStatus h (uint b) (setFPS h (uint a) c))"
    by (simp add: readCommandPacket_def)
qed

theorem C3_command_packet_witness:
  "length [30, 1 :: byte] \<noteq> 3 \<and>
   readCommandPacket example_env (Some [30, 1]) example_station = example_station \<and>
   (30 :: byte) < 128 \<and> (1 :: byte) < 128 \<and> (0 :: byte) < 128 \<and>
   readCommandPacket example_env (Some [30, 1, 0]) example_station =
     example_station\<lparr>m_fps := 30, m_flashlightStatus := 1,
       trace := trace example_station @
         [fpsChanged, setFlashMode FlashVideoLight, searchAndLock, focusStatusChanged,
          lightStatusChanged]\<rparr> \<and>
   \<not> char_is_signed (example_env\<lparr>char_is_signed := False\<rparr>) \<and>
   readCommandPacket (example_env\<lparr>char_is_signed := False\<rparr>) (Some [200, 255, 1])
       example_station =
     example_station\<lparr>m_fps := 60, m_flashlightStatus := 255,
       trace := trace example_station @
         [fpsChanged, setFlashMode FlashOff, lightStatusChanged, searchAndLock,
          focusStatusChanged]\<rparr>"
  using C3_command_packet [of "[30, 1]" example_env example_station 30 1 0]
    C3_command_packet [of "[]" "example_env\<lparr>char_is_signed := False\<rparr>" example_station
      200 255 1]
  by (simp add: example_station_eq example_env_def setFPS_def setFlashlightStatus_def
      QCCTV_GET_VALID_FPS_spec_def emit_def flashlightAvailable_def flashlightOn_def
      lightStatus_def focusCamera_def)

text \<open>
  Where \<^verbatim>\<open>char\<close> is signed, a byte of 128 or more is not taken verbatim. The byte 200
  asks for the rate 200, which \<^verbatim>\<open>setFPS\<close> clamps to 60; read from a packet it arrives
  as \<open>-56\<close> and the rate 1 is stored. The byte 255 is stored as the light status \<open>-1\<close>.
\<close>

theorem C3_counterexample:
  "char_is_signed example_env \<and>
   uint (200 :: byte) = 200 \<and>
   m_fps (setFPS example_env 200 example_station) = 60 \<and>
   m_fps (readCommandPacket example_env (Some [200, 1, 0]) example_station) = 1 \<and>
   uint (255 :: byte) = 255 \<and>
   m_flashlightStatus (readCommandPacket example_env (Some [30, 255, 0]) example_station) = - 1"
  by (simp add: example_station_eq example_env_def readCommandPacket_def char_to_int_def
      setFPS_def setFlashlightStatus_def QCCTV_GET_VALID_FPS_spec_def emit_def
      flashlightAvailable_def flashlightOn_def lightStatus_def)

section \<open>The flashlight\<close>

text \<open>
  What \<^verbatim>\<open>setFlashlightStatus\<close> does while \<^verbatim>\<open>flashlightAvailable\<close> is false (no
  camera is set, or its flash is not ready): it makes no hardware call and emits nothing,
  but it has already stored the requested status.
\<close>

lemma setFlashlightStatus_unavailable:
  "\<not> flashlightAvailable c \<Longrightarrow>
   setFlashlightStatus h status c = c\<lparr>m_flashlightStatus := status\<rparr>"
  by (simp add: setFlashlightStatus_def flashlightAvailable_def split: option.splits)

text \<open>
  C4 (light request without hardware). A request made while the light is unavailable
  should leave the stored light status as it is. The code does not: the assignment stands
  before the two availability checks. On a camera whose flash is not ready,
  \<^verbatim>\<open>turnOnFlashlight\<close> stores the status on, with no hardware call and no
  \<^verbatim>\<open>lightStatusChanged\<close>, and \<^verbatim>\<open>flashlightOn\<close> then answers true although no light
  was lit. When the flash becomes ready, a second \<^verbatim>\<open>turnOnFlashlight\<close> finds the status
  already stored and does nothing: the whole session never calls \<^verbatim>\<open>setFlashMode\<close>.
\<close>

theorem C4_stored_status_changes:
  "\<not> flashlightAvailable (setCamera (Some example_flash_not_ready) example_camera) \<and>
   m_flashlightStatus (setCamera (Some example_flash_not_ready) example_camera) = 0 \<and>
   turnOnFlashlight example_env (setCamera (Some example_flash_not_ready) example_camera) =
     (setCamera (Some example_flash_not_ready) example_camera)\<lparr>m_flashlightStatus := 1\<rparr> \<and>
   flashlightOn example_env
     (turnOnFlashlight example_env (setCamera (Some example_flash_not_ready) example_camera)) \<and>
   run example_env
     [SetCamera (Some example_flash_not_ready), TurnOnFlashlight,
      HardwareReports example_hardware, TurnOnFlashlight] example_camera =
     Some (example_camera
       \<lparr>m_flashlightStatus := 1, m_camera := Some example_hardware, m_capture := True,
        trace := trace example_camera @
          [cameraSetViewfinder, cameraSetCaptureMode, cameraStart]\<rparr>)"
  by (simp add: example_camera_eq example_env_sel example_flash_not_ready_def
      example_hardware_def setCamera_def turnOnFlashlight_def setFlashlightStatus_def
      flashlightAvailable_def flashlightOn_def lightStatus_def emit_def)

section \<open>The frame rate\<close>

text \<open>
  C5 (rate clamping). With \<^verbatim>\<open>QCCTV_GET_VALID_FPS\<close> the clamp to a range from \<open>lo\<close> to
  \<open>hi\<close>, the rate stored by \<^verbatim>\<open>setFPS\<close> lies in the range for every input: an input
  below the range stores \<open>lo\<close>, one above stores \<open>hi\<close>, one inside is stored as it is.
  No other operation writes the rate, so it lies in the range after every run of a
  constructed camera.
\<close>

theorem C5_fps_clamp:
  assumes "lo \<le> hi" and "QCCTV_GET_VALID_FPS h = QCCTV_GET_VALID_FPS_spec lo hi"
  shows "lo \<le> m_fps (setFPS h n c) \<and> m_fps (setFPS h n c) \<le> hi \<and>
    (n < lo \<longrightarrow> m_fps (setFPS h n c) = lo) \<and>
    (hi < n \<longrightarrow> m_fps (setFPS h n c) = hi) \<and>
    (lo \<le> n \<and> n \<le> hi \<longrightarrow> m_fps (setFPS h n c) = n) \<and>
    (run h xs (QCCTV_LocalCamera h f0 l0 s0 px) = Some c' \<longrightarrow>
       lo \<le> m_fps c' \<and> m_fps c' \<le> hi)"
proof -
  have bounds: "lo \<le> QCCTV_GET_VALID_FPS h k \<and> QCCTV_GET_VALID_FPS h k \<le> hi" for k
    using assms by (simp add: QCCTV_GET_VALID_FPS_spec_def)
  have stored: "lo \<le> m_fps (setFPS h n c) \<and> m_fps (setFPS h n c) \<le> hi \<and>
    (n < lo \<longrightarrow> m_fps (setFPS h n c) = lo) \<and>
    (hi < n \<longrightarrow> m_fps (setFPS h n c) = hi) \<and>
    (lo \<le> n \<and> n \<le> hi \<longrightarrow> m_fps (setFPS h n c) = n)"
    using assms by (simp add: setFPS_fps QCCTV_GET_VALID_FPS_spec_def)
  have inv: "run h xs (QCCTV_LocalCamera h f0 l0 s0 px) = Some c' \<longrightarrow>
       lo \<le> m_fps c' \<and> m_fps c' \<le> hi"
  proof
    assume r: "run h xs (QCCTV_LocalCamera h f0 l0 s0 px) = Some c'"
    have "\<exists>k. m_fps (QCCTV_LocalCamera h f0 l0 s0 px) = QCCTV_GET_VALID_FPS h k"
      by (auto simp add: constructor_fps)
    with r have "\<exists>k. m_fps c' = QCCTV_GET_VALID_FPS h k" by (rule run_fps)
    then obtain k where "m_fps c' = QCCTV_GET_VALID_FPS h k" ..
    with bounds [of k] show "lo \<le> m_fps c' \<and> m_fps c' \<le> hi" by simp
  qed
  from stored inv show ?thesis by simp
qed

theorem C5_fps_clamp_witness:
  "(1::int) \<le> 60 \<and> QCCTV_GET_VALID_FPS example_env = QCCTV_GET_VALID_FPS_spec 1 60 \<and>
   m_fps (setFPS example_env 200 example_camera) = 60 \<and>
   m_fps (setFPS example_env (- 3) example_camera) = 1 \<and>
   m_fps (setFPS example_env 30 example_camera) = 30 \<and>
   run example_env example_session (QCCTV_LocalCamera example_env 0 0 0 [7, 7]) =
     Some example_after_session \<and>
   1 \<le> m_fps example_after_session \<and> m_fps example_after_session \<le> 60"
  using
    C5_fps_clamp [where lo = 1 and hi = 60 and h = example_env and n = 200
      and c = example_camera and xs = example_session and ?f0.0 = 0 and ?l0.0 = 0 and ?s0.0 = 0
      and px = "[7, 7]" and c' = example_after_session]
    C5_fps_clamp [where lo = 1 and hi = 60 and h = example_env and n = "- 3"
      and c = example_camera and xs = "[]" and ?f0.0 = 0 and ?l0.0 = 0 and ?s0.0 = 0
      and px = "[7, 7]" and c' = example_camera]
    C5_fps_clamp [where lo = 1 and hi = 60 and h = example_env and n = 30
      and c = example_camera and xs = "[]" and ?f0.0 = 0 and ?l0.0 = 0 and ?s0.0 = 0
      and px = "[7, 7]" and c' = example_camera]
  by (simp add: example_env_sel example_session_run)

section \<open>Status flags\<close>

text \<open>
  C6 (status flags), as the code has it. For a non-zero flag \<open>f\<close>, adding it twice gives
  the same object as adding it once, events included: the pair emits one
  \<^verbatim>\<open>cameraStatusChanged\<close> when no bit of \<open>f\<close> was set before, and none when one was,
  because adding a flag that is already set changes nothing. Removing a flag of which no
  bit is set changes nothing and emits nothing.
\<close>

theorem C6_flags_idempotent:
  "(f \<noteq> 0 \<longrightarrow> addStatusFlag f (addStatusFlag f c) = addStatusFlag f c) \<and>
   (f \<noteq> 0 \<and> m_cameraStatus c AND f = 0 \<longrightarrow>
      trace (addStatusFlag f (addStatusFlag f c)) = trace c @ [cameraStatusChanged]) \<and>
   (m_cameraStatus c AND f \<noteq> 0 \<longrightarrow> addStatusFlag f c = c) \<and>
   (m_cameraStatus c AND f = 0 \<longrightarrow> removeStatusFlag f c = c)"
proof (intro conjI impI)
  assume "f \<noteq> 0"
  then show "addStatusFlag f (addStatusFlag f c) = addStatusFlag f c"
    by (simp add: addStatusFlag_def emit_def word_or_and_absorb)
next
  assume "f \<noteq> 0 \<and> m_cameraStatus c AND f = 0"
  then show "trace (addStatusFlag f (addStatusFlag f c)) = trace c @ [cameraStatusChanged]"
    by (simp add: addStatusFlag_def emit_def word_or_and_absorb)
next
  assume "m_cameraStatus c AND f \<noteq> 0"
  then show "addStatusFlag f c = c"
    by (simp add: addStatusFlag_def)
next
  assume "m_cameraStatus c AND f = 0"
  then show "removeStatusFlag f c = c"
    by (simp add: removeStatusFlag_def)
qed

theorem C6_flags_idempotent_witness:
  "(8 :: 32 word) \<noteq> 0 \<and> m_cameraStatus example_camera AND 8 = 0 \<and>
   addStatusFlag 8 (addStatusFlag 8 example_camera) = addStatusFlag 8 example_camera \<and>
   trace (addStatusFlag 8 (addStatusFlag 8 example_camera)) =
     trace example_camera @ [cameraStatusChanged] \<and>
   m_cameraStatus (addStatusFlag 8 example_camera) AND 8 \<noteq> 0 \<and>
   removeStatusFlag 8 example_camera = example_camera"
  using C6_flags_idempotent [of 8 example_camera]
    C6_flags_idempotent [of 8 "addStatusFlag 8 example_camera"]
  by (simp add: example_camera_eq addStatusFlag_def emit_def)

text \<open>
  The pair does not always emit exactly one notification. After the first status refresh
  of the fresh object the video-failure flag 8 is set, and adding it twice emits nothing.
  And for the flag value 0 every call emits, so the pair emits two.
\<close>

theorem C6_counterexample:
  "m_cameraStatus (updateStatus example_env example_camera) AND 8 = 8 \<and>
   trace (addStatusFlag 8 (addStatusFlag 8 (updateStatus example_env example_camera))) =
     trace (updateStatus example_env example_camera) \<and>
   trace (addStatusFlag 0 (addStatusFlag 0 example_camera)) =
     trace example_camera @ [cameraStatusChanged, cameraStatusChanged]"
  by (simp add: example_camera_eq example_env_sel updateStatus_def addStatusFlag_def
      flashlightAvailable_def emit_def)

section \<open>Broadcast\<close>

text \<open>
  C7 (broadcast). \<^verbatim>\<open>sendCameraData\<close> writes the buffer to every socket of
  \<^verbatim>\<open>m_sockets\<close>, in list order, and then empties the buffer, changing nothing else;
  with no socket it only empties the buffer. After it the next \<^verbatim>\<open>generateDataStream\<close>
  encodes a fresh packet.
\<close>

theorem C7_broadcast_clears:
  "sendCameraData c =
     c\<lparr>trace := trace c @ map (\<lambda>socket. socketWrite socket (m_dataStream c)) (m_sockets c),
       m_dataStream := []\<rparr> \<and>
   m_dataStream (sendCameraData c) = [] \<and>
   (m_sockets c = [] \<longrightarrow> sendCameraData c = c\<lparr>m_dataStream := []\<rparr>) \<and>
   m_dataStream (generateDataStream h (sendCameraData c)) = dataStreamOf h c"
  by (simp add: sendCameraData_def emit_def generateDataStream_def dataStreamOf_def
      cameraName_def fps_def lightStatus_def cameraStatus_def currentImage_def)

theorem C7_broadcast_clears_witness:
  "m_sockets (generateDataStream example_env example_camera) = [] \<and>
   sendCameraData (generateDataStream example_env example_camera) = example_camera \<and>
   sendCameraData (generateDataStream example_env example_station) =
     example_station\<lparr>trace := trace example_station @
       [socketWrite 1 (dataStreamOf example_env example_station),
        socketWrite 2 (dataStreamOf example_env example_station)]\<rparr> \<and>
   dataStreamOf example_env example_station =
     [14, 85, 110, 107, 110, 111, 119, 110, 32, 67, 97, 109, 101, 114, 97, 24, 0, 0, 7, 7,
      0x45, 0x4F, 0x44]"
  using C7_broadcast_clears [of "generateDataStream example_env example_camera" example_env]
    C7_broadcast_clears [of "generateDataStream example_env example_station" example_env]
  by (simp add: generateDataStream_def dataStreamOf_def imagePayload_def cameraName_def fps_def
      lightStatus_def cameraStatus_def currentImage_def example_camera_eq example_station_eq
      example_env_sel example_name_utf8)

section \<open>The scheduler tick\<close>

text \<open>
  C8 (tick order and re-arm). A tick \<^verbatim>\<open>update\<close> with a non-zero stored rate does, in
  this order: the status refresh, whose only events are status notifications; the
  encoding, which on an empty buffer produces the packet of the refreshed state and
  otherwise keeps the unsent buffer; the write of that buffer to every socket, after which
  the buffer is empty; and last the arming of a single-shot timer for \<^verbatim>\<open>update\<close> with
  period \<^verbatim>\<open>1000 / fps\<close>, the rate being the one stored at that moment. \<^verbatim>\<open>setFPS\<close>
  itself arms no timer: its only event is \<^verbatim>\<open>fpsChanged\<close>, and the tick that follows it
  arms the timer with the new rate.
\<close>

theorem C8_tick_order:
  "(m_fps c \<noteq> 0 \<longrightarrow>
     (\<exists>es. set es \<subseteq> {cameraStatusChanged} \<and>
        trace (updateStatus h c) = trace c @ es \<and>
        update h c =
          Some ((updateStatus h c)
            \<lparr>m_dataStream := [],
             trace := trace c @ es
               @ map (\<lambda>socket. socketWrite socket
                       (if m_dataStream c = [] then dataStreamOf h (updateStatus h c)
                        else m_dataStream c)) (m_sockets c)
               @ [singleShot (c_div 1000 (m_fps c)) PreciseTimer SlotUpdate]\<rparr>))) \<and>
   (0 < m_fps c \<longrightarrow> c_div 1000 (m_fps c) = 1000 div m_fps c) \<and>
   trace (setFPS h n c) =
     trace c @ (if m_fps (setFPS h n c) \<noteq> m_fps c then [fpsChanged] else []) \<and>
   (QCCTV_GET_VALID_FPS h n \<noteq> 0 \<longrightarrow>
     (\<exists>c'. update h (setFPS h n c) = Some c' \<and>
        last (trace c') =
          singleShot (c_div 1000 (QCCTV_GET_VALID_FPS h n)) PreciseTimer SlotUpdate))"
proof (intro conjI impI)
  assume fps: "m_fps c \<noteq> 0"
  obtain es where es: "set es \<subseteq> {cameraStatusChanged}" "trace (updateStatus h c) = trace c @ es"
    using updateStatus_trace by blast
  from update_eq [OF fps, of h] es
  show "\<exists>es. set es \<subseteq> {cameraStatusChanged} \<and>
        trace (updateStatus h c) = trace c @ es \<and>
        update h c =
          Some ((updateStatus h c)
            \<lparr>m_dataStream := [],
             trace := trace c @ es
               @ map (\<lambda>socket. socketWrite socket
                       (if m_dataStream c = [] then dataStreamOf h (updateStatus h c)
                        else m_dataStream c)) (m_sockets c)
               @ [singleShot (c_div 1000 (m_fps c)) PreciseTimer SlotUpdate]\<rparr>)"
    by (intro exI [of _ es]) simp
next
  assume "0 < m_fps c"
  then show "c_div 1000 (m_fps c) = 1000 div m_fps c" by (rule c_div_pos)
next
  show "trace (setFPS h n c) =
     trace c @ (if m_fps (setFPS h n c) \<noteq> m_fps c then [fpsChanged] else [])"
    by (auto simp add: setFPS_trace setFPS_fps)
next
  assume v: "QCCTV_GET_VALID_FPS h n \<noteq> 0"
  then have "m_fps (setFPS h n c) \<noteq> 0" by (simp add: setFPS_fps)
  from update_eq [OF this, of h]
  show "\<exists>c'. update h (setFPS h n c) = Some c' \<and>
        last (trace c') =
          singleShot (c_div 1000 (QCCTV_GET_VALID_FPS h n)) PreciseTimer SlotUpdate"
    by (simp add: setFPS_fps)
qed

theorem C8_tick_order_witness:
  "m_fps (acceptConnection [1] example_camera) \<noteq> 0 \<and>
   0 < m_fps (acceptConnection [1] example_camera) \<and>
   m_cameraStatus (acceptConnection [1] example_camera) = 0 \<and>
   update example_env (acceptConnection [1] example_camera) =
     Some ((acceptConnection [1] example_camera)
       \<lparr>m_cameraStatus := 24,
        trace := trace (acceptConnection [1] example_camera) @
          [cameraStatusChanged, cameraStatusChanged,
           socketWrite 1 [14, 85, 110, 107, 110, 111, 119, 110, 32, 67, 97, 109, 101, 114, 97,
                          24, 0, 24, 7, 7, 0x45, 0x4F, 0x44],
           singleShot 41 PreciseTimer SlotUpdate]\<rparr>) \<and>
   QCCTV_GET_VALID_FPS example_env 30 \<noteq> 0 \<and>
   trace (setFPS example_env 30 example_camera) = trace example_camera @ [fpsChanged] \<and>
   update example_env (setFPS example_env 30 example_camera) =
     Some (example_camera
       \<lparr>m_fps := 30, m_cameraStatus := 24,
        trace := trace example_camera @
          [fpsChanged, cameraStatusChanged, cameraStatusChanged,
           singleShot 33 PreciseTimer SlotUpdate]\<rparr>)"
  using C8_tick_order [of "acceptConnection [1] example_camera" example_env 30]
    C8_tick_order [of example_camera example_env 30]
  by (simp add: example_camera_eq example_env_sel update_def updateStatus_def addStatusFlag_def
      flashlightAvailable_def generateDataStream_def dataStreamOf_def imagePayload_def
      cameraName_def fps_def lightStatus_def cameraStatus_def currentImage_def
      sendCameraData_def emit_def c_div_def setFPS_def QCCTV_GET_VALID_FPS_spec_def
      example_name_utf8)

section \<open>Change notifications\<close>

text \<open>
  C9 (change notifications), as the code has it. \<^verbatim>\<open>setName\<close> stores the given name and
  emits \<^verbatim>\<open>cameraNameChanged\<close> exactly when the stored name changed; \<^verbatim>\<open>setFPS\<close> stores
  the valid rate for its input and emits \<^verbatim>\<open>fpsChanged\<close> exactly when the stored rate
  changed; \<^verbatim>\<open>setCameraStatus\<close> stores the given status and emits
  \<^verbatim>\<open>cameraStatusChanged\<close> on every call.
\<close>

theorem C9_change_notifications:
  "m_name (setName name c) = name \<and>
   trace (setName name c) =
     trace c @ (if m_name (setName name c) \<noteq> m_name c then [cameraNameChanged] else []) \<and>
   m_fps (setFPS h n c) = QCCTV_GET_VALID_FPS h n \<and>
   trace (setFPS h n c) =
     trace c @ (if m_fps (setFPS h n c) \<noteq> m_fps c then [fpsChanged] else []) \<and>
   m_cameraStatus (setCameraStatus status c) = status \<and>
   trace (setCameraStatus status c) = trace c @ [cameraStatusChanged]"
  by (auto simp add: setName_def setFPS_def setCameraStatus_def)

theorem C9_change_notifications_witness:
  "trace (setName (QString_of ''Cam1'') example_camera) =
     trace example_camera @ [cameraNameChanged] \<and>
   trace (setName (m_name example_camera) example_camera) = trace example_camera \<and>
   trace (setFPS example_env 30 example_camera) = trace example_camera @ [fpsChanged] \<and>
   trace (setFPS example_env 24 example_camera) = trace example_camera \<and>
   trace (setFPS example_env 0 (setFPS example_env 1 example_camera)) =
     trace example_camera @ [fpsChanged] \<and>
   trace (setCameraStatus 8 example_camera) = trace example_camera @ [cameraStatusChanged]"
  using C9_change_notifications [of "QString_of ''Cam1''" example_camera example_env 30 8]
    C9_change_notifications [of "m_name example_camera" example_camera example_env 24 8]
    C9_change_notifications [of "[]" "setFPS example_env 1 example_camera" example_env 0 8]
  by (simp add: example_camera_eq example_env_sel QString_of_def setFPS_def
      QCCTV_GET_VALID_FPS_spec_def)

text \<open>
  \<^verbatim>\<open>setCameraStatus\<close> does not wait for a change: called on the fresh object with the
  status 0 it already has, it still emits \<^verbatim>\<open>cameraStatusChanged\<close>.
\<close>

theorem C9_counterexample:
  "m_cameraStatus (setCameraStatus 0 example_camera) = m_cameraStatus example_camera \<and>
   trace (setCameraStatus 0 example_camera) = trace example_camera @ [cameraStatusChanged]"
  by (simp add: example_camera_eq setCameraStatus_def emit_def)

section \<open>The current image\<close>

text \<open>
  C10 (the current image is never null). \<^verbatim>\<open>changeImage\<close> with a null image changes
  nothing and emits nothing. The constructor installs a non-null placeholder, and after
  every run of operations on the constructed object \<^verbatim>\<open>currentImage\<close> is still not null.
\<close>

theorem C10_image_never_null:
  "(isNull img \<longrightarrow> changeImage img c = c) \<and>
   \<not> isNull (currentImage (QCCTV_LocalCamera h f0 l0 s0 px)) \<and>
   (run h xs (QCCTV_LocalCamera h f0 l0 s0 px) = Some c' \<longrightarrow> \<not> isNull (currentImage c'))"
proof (intro conjI impI)
  assume "isNull img"
  then show "changeImage img c = c" by (simp add: changeImage_def)
next
  show "\<not> isNull (currentImage (QCCTV_LocalCamera h f0 l0 s0 px))"
    by (simp add: currentImage_def constructor_image)
next
  assume "run h xs (QCCTV_LocalCamera h f0 l0 s0 px) = Some c'"
  then have "\<not> isNull (m_image c')"
    by (rule run_image) (simp add: constructor_image)
  then show "\<not> isNull (currentImage c')" by (simp add: currentImage_def)
qed

theorem C10_image_never_null_witness:
  "isNull NullImage \<and> changeImage NullImage example_camera = example_camera \<and>
   run example_env example_session (QCCTV_LocalCamera example_env 0 0 0 [7, 7]) =
     Some example_after_session \<and>
   currentImage example_after_session = Image 2 1 [9, 9] \<and>
   \<not> isNull (currentImage example_after_session)"
  using C10_image_never_null [of NullImage example_camera example_env 0 0 0 "[7, 7]"
      example_session example_after_session]
  by (simp add: example_session_run example_after_session_def currentImage_def)

end
